theory Spec2Isabelle
  imports Main "HOL-Library.Sublist"
begin

section \<open>The authorization pipeline of the coffee-shop backend\<close>

text \<open>
  A shallow embedding of \<^verbatim>\<open>backend/src/auth/auth.py\<close> and of the \<^verbatim>\<open>AuthError\<close> handler of
  \<^verbatim>\<open>backend/src/api.py\<close>. Every Python exception is a value of the type \<open>exn\<close>, and a
  function that may raise returns \<open>exn + 'a\<close> with \<open>Inl\<close> for the raised exception.
  The network, the JSON parser and the jose library are not part of the repository: they
  are the fields of the record \<open>env\<close>, and every theorem holds for every such environment.
\<close>

subsection \<open>Values\<close>

text \<open>
  A decoded JSON value. A JSON object is a Python \<^verbatim>\<open>dict\<close>, kept as an association list
  that is read with \<open>map_of\<close>. The functions below never look inside a number.
\<close>

datatype json =
    JNull
  | JBool bool
  | JNum int
  | JStr string
  | JList "json list"
  | JObj "(string \<times> json) list"

type_synonym 'v dict = "(string \<times> 'v) list"

text \<open>The \<^verbatim>\<open>error\<close> dictionary of an \<^verbatim>\<open>AuthError\<close>: always built with these two entries.\<close>

record error_body =
  code :: string
  description :: string

text \<open>
  The exceptions of the pipeline; each constructor is a subclass of Python's
  \<^verbatim>\<open>Exception\<close>. \<open>HTTPException n\<close> is what Flask's \<^verbatim>\<open>abort(n)\<close> raises;
  \<open>ExpiredSignatureError\<close> and \<open>JWTClaimsError\<close> are the two subclasses of jose's
  \<open>JWTError\<close> that the code tells apart; \<open>OtherError\<close> is any other exception of a
  library (a failed connection, a body that is not JSON), with its class name.
\<close>

datatype exn =
    AuthError error_body nat
  | IndexError
  | KeyError string
  | TypeError
  | ExpiredSignatureError
  | JWTClaimsError
  | JWTError
  | OtherError string
  | HTTPException nat

definition dict_has :: "'v dict \<Rightarrow> string \<Rightarrow> bool" where
  "dict_has d k = (map_of d k \<noteq> None)"

definition dict_get :: "'v dict \<Rightarrow> string \<Rightarrow> exn + 'v" where
  "dict_get d k = (case map_of d k of None \<Rightarrow> Inl (KeyError k) | Some v \<Rightarrow> Inr v)"

subsection \<open>Module constants\<close>

definition AUTH0_DOMAIN :: string where
  "AUTH0_DOMAIN = ''brunogarcia.eu.auth0.com''"

definition ALGORITHMS :: "string list" where
  "ALGORITHMS = [''RS256'']"

definition API_AUDIENCE :: string where
  "API_AUDIENCE = ''coffe-shop''"

definition BEARER :: string where
  "BEARER = ''bearer''"

definition PERMISSIONS :: string where
  "PERMISSIONS = ''permissions''"

definition AUTHORIZATION :: string where
  "AUTHORIZATION = ''Authorization''"

subsection \<open>Strings\<close>

text \<open>
  A header value reaches the application as a string of the code points 0 to 255, which
  is what \<open>char\<close> holds. \<open>isspace\<close> lists the code points in that range that Python's
  \<^verbatim>\<open>str.split()\<close> treats as white space, and \<open>lower_char\<close> is \<^verbatim>\<open>str.lower()\<close> on one of them.
\<close>

definition isspace :: "char \<Rightarrow> bool" where
  "isspace c = (of_char c \<in> set [9, 10, 11, 12, 13, 28, 29, 30, 31, 32, 133, 160 :: nat])"

definition lower_char :: "char \<Rightarrow> char" where
  "lower_char c =
     (let n = (of_char c :: nat) in
      if (65 \<le> n \<and> n \<le> 90) \<or> (192 \<le> n \<and> n \<le> 222 \<and> n \<noteq> 215)
      then char_of (n + 32) else c)"

definition str_lower :: "string \<Rightarrow> string" where
  "str_lower s = map lower_char s"

text \<open>
  \<^verbatim>\<open>s.split()\<close>: the maximal runs of characters that are not white space, in order.
  \<open>split_from w s\<close> has read the characters \<open>w\<close> of the current run.
\<close>

fun split_from :: "string \<Rightarrow> string \<Rightarrow> string list" where
  "split_from w [] = (if w = [] then [] else [w])"
| "split_from w (c # cs) =
     (if isspace c then (if w = [] then split_from [] cs else w # split_from [] cs)
      else split_from (w @ [c]) cs)"

definition str_split :: "string \<Rightarrow> string list" where
  "str_split s = split_from [] s"

subsection \<open>get_token_auth_header\<close>

text \<open>
  The request is its header lookup \<^verbatim>\<open>request.headers.get(name, None)\<close>.
  \<^verbatim>\<open>not auth\<close> holds for \<^verbatim>\<open>None\<close> and for the empty string; \<^verbatim>\<open>parts[0]\<close> raises
  \<^verbatim>\<open>IndexError\<close> on an empty list.
\<close>

type_synonym request = "string \<Rightarrow> string option"

definition get_token_auth_header :: "request \<Rightarrow> exn + string" where
  "get_token_auth_header headers =
     (case headers AUTHORIZATION of
        None \<Rightarrow>
          Inl (AuthError \<lparr>code = ''authorization_header_missing'',
                          description = ''Authorization header is expected.''\<rparr> 401)
      | Some auth \<Rightarrow>
          if auth = [] then
            Inl (AuthError \<lparr>code = ''authorization_header_missing'',
                            description = ''Authorization header is expected.''\<rparr> 401)
          else
            (let parts = str_split auth in
             case parts of
               [] \<Rightarrow> Inl IndexError
             | p0 # _ \<Rightarrow>
                 if str_lower p0 \<noteq> BEARER then
                   Inl (AuthError \<lparr>code = ''invalid_header'',
                          description = ''Authorization header must start with '' @ [CHR 0x22] @
                            ''Bearer'' @ [CHR 0x22] @ ''.''\<rparr> 401)
                 else if length parts = 1 then
                   Inl (AuthError \<lparr>code = ''invalid_header'',
                          description = ''Token not found.''\<rparr> 401)
                 else if length parts > 2 then
                   Inl (AuthError \<lparr>code = ''invalid_header'',
                          description = ''Authorization header must be bearer token.''\<rparr> 401)
                 else Inr (parts ! 1)))"

subsection \<open>check_permissions\<close>

text \<open>
  \<^verbatim>\<open>permission in value\<close> for a string \<^verbatim>\<open>permission\<close>: membership in a list (a string
  equals only a string), the substring test on a string, key membership on an object,
  and \<^verbatim>\<open>TypeError\<close> on a value that is not a container.
\<close>

fun py_in :: "string \<Rightarrow> json \<Rightarrow> exn + bool" where
  "py_in s (JList xs) = Inr (JStr s \<in> set xs)"
| "py_in s (JStr t) = Inr (sublist s t)"
| "py_in s (JObj kvs) = Inr (s \<in> set (map fst kvs))"
| "py_in s JNull = Inl TypeError"
| "py_in s (JBool b) = Inl TypeError"
| "py_in s (JNum n) = Inl TypeError"

definition check_permissions :: "string \<Rightarrow> json dict \<Rightarrow> exn + bool" where
  "check_permissions permission payload =
     (if \<not> dict_has payload PERMISSIONS then
        Inl (AuthError \<lparr>code = ''invalid_claims'',
                        description = ''Permissions not included in JWT.''\<rparr> 400)
      else
        (case dict_get payload PERMISSIONS of
           Inl e \<Rightarrow> Inl e
         | Inr granted \<Rightarrow>
             (case py_in permission granted of
                Inl e \<Rightarrow> Inl e
              | Inr found \<Rightarrow>
                  if \<not> found then
                    Inl (AuthError \<lparr>code = ''unauthorized'',
                                    description = ''Permission not found.''\<rparr> 403)
                  else Inr True)))"

subsection \<open>The environment and the trace of calls\<close>

text \<open>
  A signing key of the fetched key set and the key handed to the verification are
  dictionaries of strings; the parsed key-set document is a dictionary whose \<^verbatim>\<open>keys\<close>
  entry, when present, is the sequence of signing keys (section 6 of the specification).
\<close>

type_synonym jwk = "string dict"

type_synonym jwks = "jwk list dict"

text \<open>
  What the code calls outside the repository. \<open>urlopen\<close> is \<^verbatim>\<open>urlopen(url).read()\<close>,
  \<open>json_loads\<close> is \<^verbatim>\<open>json.loads\<close> on the body, \<open>get_unverified_header\<close> and
  \<open>jwt_decode\<close> are the two functions of jose; \<open>jwt_decode\<close> takes the token, the
  key, the algorithms, the audience and the issuer. Each returns or raises.
\<close>

record env =
  urlopen :: "string \<Rightarrow> exn + string"
  json_loads :: "string \<Rightarrow> exn + jwks"
  get_unverified_header :: "string \<Rightarrow> exn + json dict"
  jwt_decode :: "string \<Rightarrow> string dict \<Rightarrow> string list \<Rightarrow> string \<Rightarrow> string \<Rightarrow> exn + json dict"

text \<open>
  The calls a run makes outside the repository, in the order it makes them, and what it
  prints. A run is its trace and its outcome.
\<close>

datatype event =
    UrlOpen string
  | JsonLoads string
  | GetUnverifiedHeader string
  | JwtDecode string "string dict"
  | Print exn

type_synonym 'a run = "event list \<times> (exn + 'a)"

subsection \<open>verify_decode_jwt\<close>

definition jwks_url :: string where
  "jwks_url = ''https://'' @ AUTH0_DOMAIN @ ''/.well-known/jwks.json''"

definition issuer :: string where
  "issuer = ''https://'' @ AUTH0_DOMAIN @ ''/''"

text \<open>
  The dictionary display \<^verbatim>\<open>{'kty': key['kty'], ...}\<close>: the entries are evaluated from
  left to right, and the first missing one raises \<^verbatim>\<open>KeyError\<close>.
\<close>

fun copy_fields :: "jwk \<Rightarrow> string list \<Rightarrow> exn + string dict" where
  "copy_fields key [] = Inr []"
| "copy_fields key (f # fs) =
     (case dict_get key f of
        Inl e \<Rightarrow> Inl e
      | Inr v \<Rightarrow>
          (case copy_fields key fs of
             Inl e \<Rightarrow> Inl e
           | Inr r \<Rightarrow> Inr ((f, v) # r)))"

definition rsa_fields :: "string list" where
  "rsa_fields = [''kty'', ''kid'', ''use'', ''n'', ''e'']"

text \<open>
  The loop \<^verbatim>\<open>for key in jwks['keys']\<close>, with the current value of \<^verbatim>\<open>rsa_key\<close>. The key id
  of a signing key is a string, and a string equals a JSON value only when that value
  is the same string.
\<close>

fun select_rsa_key :: "jwk list \<Rightarrow> json \<Rightarrow> string dict \<Rightarrow> exn + string dict" where
  "select_rsa_key [] kid rsa_key = Inr rsa_key"
| "select_rsa_key (key # keys) kid rsa_key =
     (case dict_get key ''kid'' of
        Inl e \<Rightarrow> Inl e
      | Inr k \<Rightarrow>
          if JStr k = kid then
            (case copy_fields key rsa_fields of
               Inl e \<Rightarrow> Inl e
             | Inr r \<Rightarrow> select_rsa_key keys kid r)
          else select_rsa_key keys kid rsa_key)"

text \<open>The test of the loop on one signing key: it has a key id, equal to the token's.\<close>

definition key_matches :: "json \<Rightarrow> jwk \<Rightarrow> bool" where
  "key_matches kid key = (case map_of key ''kid'' of None \<Rightarrow> False | Some k \<Rightarrow> JStr k = kid)"

text \<open>The three \<^verbatim>\<open>except\<close> clauses around \<^verbatim>\<open>jwt.decode\<close>, in their order.\<close>

fun decode_handler :: "exn \<Rightarrow> exn" where
  "decode_handler ExpiredSignatureError =
     AuthError \<lparr>code = ''token_expired'', description = ''Token expired.''\<rparr> 401"
| "decode_handler JWTClaimsError =
     AuthError \<lparr>code = ''invalid_claims'',
       description = ''Incorrect claims. Please, check the audience and issuer.''\<rparr> 401"
| "decode_handler e =
     AuthError \<lparr>code = ''invalid_header'',
       description = ''Unable to parse authentication token.''\<rparr> 400"

definition verify_decode_jwt :: "env \<Rightarrow> string \<Rightarrow> (json dict) run" where
  "verify_decode_jwt env token =
     (case urlopen env jwks_url of
        Inl e \<Rightarrow> ([UrlOpen jwks_url], Inl e)
      | Inr body \<Rightarrow>
     (case json_loads env body of
        Inl e \<Rightarrow> ([UrlOpen jwks_url, JsonLoads body], Inl e)
      | Inr jwks \<Rightarrow>
     (case get_unverified_header env token of
        Inl e \<Rightarrow> ([UrlOpen jwks_url, JsonLoads body, GetUnverifiedHeader token], Inl e)
      | Inr unverified_header \<Rightarrow>
     (let calls = [UrlOpen jwks_url, JsonLoads body, GetUnverifiedHeader token] in
      if \<not> dict_has unverified_header ''kid'' then
        (calls, Inl (AuthError \<lparr>code = ''invalid_header'',
                                 description = ''Authorization malformed.''\<rparr> 401))
      else
     (case dict_get jwks ''keys'' of
        Inl e \<Rightarrow> (calls, Inl e)
      | Inr keys \<Rightarrow>
     (case dict_get unverified_header ''kid'' of
        Inl e \<Rightarrow> (calls, Inl e)
      | Inr kid \<Rightarrow>
     (case select_rsa_key keys kid [] of
        Inl e \<Rightarrow> (calls, Inl e)
      | Inr rsa_key \<Rightarrow>
          if rsa_key \<noteq> [] then
            (calls @ [JwtDecode token rsa_key],
             case jwt_decode env token rsa_key ALGORITHMS API_AUDIENCE issuer of
               Inr payload \<Rightarrow> Inr payload
             | Inl e \<Rightarrow> Inl (decode_handler e))
          else
            (calls, Inl (AuthError \<lparr>code = ''invalid_header'',
                           description = ''Unable to find the appropriate key.''\<rparr> 400)))))))))"

subsection \<open>requires_auth\<close>

text \<open>
  The wrapper that \<^verbatim>\<open>requires_auth(permission)\<close> puts around \<open>function_to_decorate\<close>.
  The \<^verbatim>\<open>try\<close> block holds the first two calls; its \<^verbatim>\<open>except Exception\<close> clause prints the
  exception and calls \<^verbatim>\<open>abort(401)\<close>. \<^verbatim>\<open>check_permissions\<close> and the decorated function run
  after the block.
\<close>

definition requires_auth ::
  "string \<Rightarrow> env \<Rightarrow> (json dict \<Rightarrow> exn + 'r) \<Rightarrow> request \<Rightarrow> 'r run" where
  "requires_auth permission env function_to_decorate headers =
     (case get_token_auth_header headers of
        Inl error \<Rightarrow> ([Print error], Inl (HTTPException 401))
      | Inr token \<Rightarrow>
          (case verify_decode_jwt env token of
             (calls, Inl error) \<Rightarrow> (calls @ [Print error], Inl (HTTPException 401))
           | (calls, Inr payload) \<Rightarrow>
               (case check_permissions permission payload of
                  Inl e \<Rightarrow> (calls, Inl e)
                | Inr granted \<Rightarrow> (calls, function_to_decorate payload))))"

subsection \<open>The AuthError handler of api.py\<close>

text \<open>The JSON body and the status of the response to an \<^verbatim>\<open>AuthError\<close>.\<close>

definition auth_error :: "error_body \<Rightarrow> nat \<Rightarrow> json dict \<times> nat" where
  "auth_error error status_code =
     ([(''success'', JBool False),
       (''error'', JNum (int status_code)),
       (''code'', JStr (code error)),
       (''message'', JStr (description error))],
      status_code)"

subsection \<open>A sample environment\<close>

text \<open>
  A key set in which the key id \<open>k1\<close> occurs twice, and an environment around it: the
  header of a token declares the token's own text as its key id, except that the token
  \<open>garbage\<close> has no readable header and the token \<open>nokid\<close> declares no key id; the
  signature is accepted only under the modulus \<open>n-last\<close>.
\<close>

definition sample_keys :: "jwk list" where
  "sample_keys =
     [[(''kty'', ''RSA''), (''kid'', ''k1''), (''use'', ''sig''), (''n'', ''n-first''), (''e'', ''AQAB'')],
      [(''kty'', ''RSA''), (''kid'', ''k2''), (''use'', ''sig''), (''n'', ''n-other''), (''e'', ''AQAB'')],
      [(''kty'', ''RSA''), (''kid'', ''k1''), (''use'', ''sig''), (''n'', ''n-last''), (''e'', ''AQAB'')]]"

definition sample_payload :: "json dict" where
  "sample_payload =
     [(''iss'', JStr ''https://brunogarcia.eu.auth0.com/''),
      (''aud'', JStr ''coffe-shop''),
      (''exp'', JNum 1600000000),
      (''permissions'', JList [JStr ''get:drinks-detail''])]"

definition sample_header :: "string \<Rightarrow> exn + json dict" where
  "sample_header token =
     (if token = ''garbage'' then Inl JWTError
      else if token = ''nokid'' then Inr [(''alg'', JStr ''RS256'')]
      else Inr [(''alg'', JStr ''RS256''), (''kid'', JStr token)])"

definition sample_decode ::
  "string \<Rightarrow> string dict \<Rightarrow> string list \<Rightarrow> string \<Rightarrow> string \<Rightarrow> exn + json dict" where
  "sample_decode token key algorithms audience iss =
     (if map_of key ''n'' = Some ''n-last'' then Inr sample_payload else Inl JWTError)"

definition sample_env :: env where
  "sample_env =
     \<lparr>urlopen = (\<lambda>url. Inr ''jwks-body''),
      json_loads = (\<lambda>body. Inr [(''keys'', sample_keys)]),
      get_unverified_header = sample_header,
      jwt_decode = sample_decode\<rparr>"

definition offline_env :: env where
  "offline_env = sample_env\<lparr>urlopen := (\<lambda>url. Inl (OtherError ''URLError''))\<rparr>"

definition badjson_env :: env where
  "badjson_env = sample_env\<lparr>json_loads := (\<lambda>body. Inl (OtherError ''JSONDecodeError''))\<rparr>"

text \<open>Requests: one without the header, and one with the given header value.\<close>

definition no_header :: request where
  "no_header = (\<lambda>name. None)"

definition with_header :: "string \<Rightarrow> request" where
  "with_header v = (\<lambda>name. if name = AUTHORIZATION then Some v else None)"

text \<open>A protected operation that returns the payload it receives.\<close>

definition echo_payload :: "json dict \<Rightarrow> exn + json dict" where
  "echo_payload payload = Inr payload"

section \<open>Auxiliary facts\<close>

subsection \<open>Splitting a header value\<close>

lemma split_from_spaces: "\<forall>c \<in> set s. isspace c \<Longrightarrow> split_from [] s = []"
  by (induction s) auto

lemma split_from_word:
  "\<forall>c \<in> set t. \<not> isspace c \<Longrightarrow> split_from w t = (if w @ t = [] then [] else [w @ t])"
  by (induction t arbitrary: w) auto

lemma split_from_parts:
  "\<forall>c \<in> set w. \<not> isspace c \<Longrightarrow>
   \<forall>p \<in> set (split_from w s). p \<noteq> [] \<and> (\<forall>c \<in> set p. \<not> isspace c)"
proof (induction s arbitrary: w)
  case Nil
  then show ?case by simp
next
  case (Cons a s)
  show ?case
  proof (cases "isspace a")
    case True
    have "\<forall>p \<in> set (split_from [] s). p \<noteq> [] \<and> (\<forall>c \<in> set p. \<not> isspace c)"
      by (rule Cons.IH) simp
    with True Cons.prems show ?thesis by simp
  next
    case False
    with Cons.prems have "\<forall>c \<in> set (w @ [a]). \<not> isspace c" by simp
    from Cons.IH [OF this] False show ?thesis by simp
  qed
qed

lemma str_split_parts: "\<forall>p \<in> set (str_split s). p \<noteq> [] \<and> (\<forall>c \<in> set p. \<not> isspace c)"
  unfolding str_split_def by (rule split_from_parts) simp

lemma str_split_bearer:
  assumes "t \<noteq> []" and "\<forall>c \<in> set t. \<not> isspace c"
  shows "str_split (''Bearer '' @ t) = [''Bearer'', t]"
proof -
  have "split_from [] (''Bearer '' @ t) = ''Bearer'' # split_from [] t"
    by (simp add: isspace_def)
  then show ?thesis using assms by (simp add: str_split_def split_from_word)
qed

lemma missing_header:
  "headers AUTHORIZATION = None \<Longrightarrow>
   get_token_auth_header headers =
     Inl (AuthError \<lparr>code = ''authorization_header_missing'',
                     description = ''Authorization header is expected.''\<rparr> 401)"
  by (simp add: get_token_auth_header_def)

text \<open>
  A header made of the scheme, one space and a token without white space gives back
  that token, character for character.
\<close>

lemma bearer_header_gives_token:
  assumes "headers AUTHORIZATION = Some (''Bearer '' @ t)" and "t \<noteq> []"
    and "\<forall>c \<in> set t. \<not> isspace c"
  shows "get_token_auth_header headers = Inr t"
proof -
  have l: "str_lower ''Bearer'' = BEARER" by code_simp
  show ?thesis
    using assms(1) str_split_bearer [OF assms(2) assms(3)] l
    by (simp add: get_token_auth_header_def)
qed

subsection \<open>The three exits of the wrapper\<close>

lemma gate_extraction_fails:
  "get_token_auth_header headers = Inl e \<Longrightarrow>
   requires_auth permission env f headers = ([Print e], Inl (HTTPException 401))"
  by (simp add: requires_auth_def)

lemma gate_verification_fails:
  "get_token_auth_header headers = Inr token \<Longrightarrow> verify_decode_jwt env token = (calls, Inl e) \<Longrightarrow>
   requires_auth permission env f headers = (calls @ [Print e], Inl (HTTPException 401))"
  by (simp add: requires_auth_def)

lemma gate_verified:
  "get_token_auth_header headers = Inr token \<Longrightarrow> verify_decode_jwt env token = (calls, Inr payload) \<Longrightarrow>
   requires_auth permission env f headers =
     (calls, case check_permissions permission payload of Inl e \<Rightarrow> Inl e | Inr granted \<Rightarrow> f payload)"
  by (simp add: requires_auth_def split: sum.splits)

subsection \<open>The permission check\<close>

lemma py_in_error: "py_in s v = Inl e \<Longrightarrow> e = TypeError"
  by (cases v) auto

lemma check_permissions_absent:
  "(check_permissions permission payload =
      Inl (AuthError \<lparr>code = ''invalid_claims'',
             description = ''Permissions not included in JWT.''\<rparr> 400)) =
   (map_of payload PERMISSIONS = None)"
  by (cases "map_of payload PERMISSIONS")
     (auto simp: check_permissions_def dict_has_def dict_get_def split: sum.splits
        dest: py_in_error)

lemma check_permissions_list:
  "map_of payload PERMISSIONS = Some (JList xs) \<Longrightarrow>
   check_permissions permission payload =
     (if JStr permission \<in> set xs then Inr True
      else Inl (AuthError \<lparr>code = ''unauthorized'',
                  description = ''Permission not found.''\<rparr> 403))"
  by (simp add: check_permissions_def dict_has_def dict_get_def)

lemma check_permissions_none:
  "map_of payload PERMISSIONS = None \<Longrightarrow>
   check_permissions permission payload =
     Inl (AuthError \<lparr>code = ''invalid_claims'',
            description = ''Permissions not included in JWT.''\<rparr> 400)"
  by (simp add: check_permissions_def dict_has_def)

subsection \<open>The scan of the key set\<close>

lemma copy_fields_complete:
  "list_all (dict_has key) fs \<Longrightarrow>
   \<exists>r. copy_fields key fs = Inr r \<and> map fst r = fs \<and> (\<forall>f \<in> set fs. map_of r f = map_of key f)"
proof (induction fs)
  case Nil
  then show ?case by simp
next
  case (Cons f fs)
  then obtain r where r: "copy_fields key fs = Inr r" "map fst r = fs"
    "\<forall>g \<in> set fs. map_of r g = map_of key g" by auto
  from Cons.prems obtain v where v: "map_of key f = Some v"
    by (auto simp: dict_has_def)
  show ?case
    using r v by (intro exI [of _ "(f, v) # r"]) (auto simp: dict_get_def)
qed

lemma copy_fields_nonempty: "copy_fields key rsa_fields = Inr r \<Longrightarrow> r \<noteq> []"
  by (auto simp: rsa_fields_def split: sum.splits)

lemma select_rsa_key_append:
  "select_rsa_key (xs @ ys) kid r =
     (case select_rsa_key xs kid r of Inl e \<Rightarrow> Inl e | Inr r' \<Rightarrow> select_rsa_key ys kid r')"
  by (induction xs arbitrary: r) (auto split: sum.splits)

lemma select_rsa_key_total:
  "\<forall>k \<in> set keys. list_all (dict_has k) rsa_fields \<Longrightarrow> \<exists>r'. select_rsa_key keys kid r = Inr r'"
proof (induction keys arbitrary: r)
  case Nil
  then show ?case by simp
next
  case (Cons key keys)
  from Cons.prems have c: "list_all (dict_has key) rsa_fields" by simp
  then obtain k where k: "map_of key ''kid'' = Some k"
    by (auto simp: rsa_fields_def dict_has_def)
  from copy_fields_complete [OF c] obtain r1 where r1: "copy_fields key rsa_fields = Inr r1" by blast
  show ?case using Cons.IH Cons.prems k r1 by (simp add: dict_get_def)
qed

lemma select_rsa_key_no_match:
  "\<forall>k \<in> set keys. \<exists>i. map_of k ''kid'' = Some i \<and> JStr i \<noteq> kid \<Longrightarrow> select_rsa_key keys kid r = Inr r"
  by (induction keys) (auto simp: dict_get_def)

lemma key_matches_kid:
  "dict_has k ''kid'' \<Longrightarrow> \<not> key_matches kid k \<Longrightarrow> \<exists>i. map_of k ''kid'' = Some i \<and> JStr i \<noteq> kid"
  by (auto simp: dict_has_def key_matches_def split: option.splits)

lemma select_rsa_key_skips:
  "\<forall>k \<in> set keys. dict_has k ''kid'' \<and> \<not> key_matches kid k \<Longrightarrow> select_rsa_key keys kid r = Inr r"
  by (rule select_rsa_key_no_match) (blast dest: key_matches_kid)

lemma select_rsa_key_last_match:
  assumes complete: "\<forall>k \<in> set (pre @ key # post). list_all (dict_has k) rsa_fields"
    and match: "key_matches kid key"
    and later: "\<forall>k \<in> set post. \<not> key_matches kid k"
    and copy: "copy_fields key rsa_fields = Inr r"
  shows "select_rsa_key (pre @ key # post) kid rsa_key = Inr r"
proof -
  from complete have "\<forall>k \<in> set pre. list_all (dict_has k) rsa_fields" by simp
  then obtain r0 where r0: "select_rsa_key pre kid rsa_key = Inr r0"
    using select_rsa_key_total by blast
  from match obtain i where i: "map_of key ''kid'' = Some i" "JStr i = kid"
    by (auto simp: key_matches_def split: option.splits)
  from complete have "\<forall>k \<in> set post. dict_has k ''kid''"
    by (simp add: rsa_fields_def)
  with later have "\<forall>k \<in> set post. dict_has k ''kid'' \<and> \<not> key_matches kid k" by blast
  then have post: "select_rsa_key post kid r = Inr r" by (rule select_rsa_key_skips)
  have "select_rsa_key (key # post) kid r0 = Inr r"
    using i copy post by (simp add: dict_get_def)
  then show ?thesis using r0 by (simp add: select_rsa_key_append)
qed

subsection \<open>The verification after the header is read\<close>

lemma verify_after_header:
  assumes "urlopen env jwks_url = Inr body" and "json_loads env body = Inr jwks"
    and "get_unverified_header env token = Inr unverified_header"
    and "map_of unverified_header ''kid'' = Some kid"
    and "map_of jwks ''keys'' = Some keys"
    and "select_rsa_key keys kid [] = Inr rsa_key"
  shows "verify_decode_jwt env token =
     (if rsa_key \<noteq> [] then
        ([UrlOpen jwks_url, JsonLoads body, GetUnverifiedHeader token, JwtDecode token rsa_key],
         case jwt_decode env token rsa_key ALGORITHMS API_AUDIENCE issuer of
           Inr payload \<Rightarrow> Inr payload
         | Inl e \<Rightarrow> Inl (decode_handler e))
      else
        ([UrlOpen jwks_url, JsonLoads body, GetUnverifiedHeader token],
         Inl (AuthError \<lparr>code = ''invalid_header'',
                description = ''Unable to find the appropriate key.''\<rparr> 400)))"
  using assms by (simp add: verify_decode_jwt_def dict_has_def dict_get_def Let_def)

lemma verify_ok_is_decoded:
  "verify_decode_jwt env token = (calls, Inr payload) \<Longrightarrow>
   \<exists>rsa_key. jwt_decode env token rsa_key ALGORITHMS API_AUDIENCE issuer = Inr payload \<and>
     JwtDecode token rsa_key \<in> set calls"
  by (auto simp: verify_decode_jwt_def Let_def split: sum.splits if_splits)

lemma verify_trace_shape:
  "fst (verify_decode_jwt env token) = [UrlOpen jwks_url] \<or>
   (\<exists>body. fst (verify_decode_jwt env token) = [UrlOpen jwks_url, JsonLoads body]) \<or>
   (\<exists>body rest. fst (verify_decode_jwt env token) =
      UrlOpen jwks_url # JsonLoads body # GetUnverifiedHeader token # rest)"
  by (auto simp: verify_decode_jwt_def Let_def split: sum.splits if_splits)

section \<open>The claims\<close>

subsection \<open>C1: what the AuthGate does with a failure of extraction or verification\<close>

text \<open>
  C1, as amended. The \<^verbatim>\<open>except Exception\<close> clause of the wrapper catches every exception
  raised by \<open>get_token_auth_header\<close> or \<open>verify_decode_jwt\<close>, an \<open>AuthError\<close> included:
  the wrapper prints it and raises the generic \<^verbatim>\<open>abort(401)\<close>. No \<open>AuthError\<close> of these two
  steps leaves the AuthGate with its own code, description and status.
\<close>

theorem gate_hides_every_failure:
  "(get_token_auth_header headers = Inl e \<longrightarrow>
      requires_auth permission env f headers = ([Print e], Inl (HTTPException 401))) \<and>
   (get_token_auth_header headers = Inr token \<and> verify_decode_jwt env token = (calls, Inl e) \<longrightarrow>
      requires_auth permission env f headers = (calls @ [Print e], Inl (HTTPException 401)))"
  using gate_extraction_fails gate_verification_fails by blast

theorem gate_hides_every_failure_witness:
  "requires_auth ''post:drinks'' sample_env echo_payload (with_header ''Basic abc'') =
     ([Print (AuthError \<lparr>code = ''invalid_header'',
            description = ''Authorization header must start with '' @ [CHR 0x22] @
              ''Bearer'' @ [CHR 0x22] @ ''.''\<rparr> 401)], Inl (HTTPException 401)) \<and>
   requires_auth ''post:drinks'' sample_env echo_payload (with_header ''Bearer k2'') =
     ([UrlOpen jwks_url, JsonLoads ''jwks-body'', GetUnverifiedHeader ''k2'',
       JwtDecode ''k2'' [(''kty'', ''RSA''), (''kid'', ''k2''), (''use'', ''sig''),
                         (''n'', ''n-other''), (''e'', ''AQAB'')],
       Print (AuthError \<lparr>code = ''invalid_header'',
                description = ''Unable to parse authentication token.''\<rparr> 400)],
      Inl (HTTPException 401))"
proof -
  have h: "get_token_auth_header (with_header ''Basic abc'') =
     Inl (AuthError \<lparr>code = ''invalid_header'',
            description = ''Authorization header must start with '' @ [CHR 0x22] @
              ''Bearer'' @ [CHR 0x22] @ ''.''\<rparr> 401)"
    by code_simp
  have tok: "get_token_auth_header (with_header ''Bearer k2'') = Inr ''k2''" by code_simp
  have ver: "verify_decode_jwt sample_env ''k2'' =
     ([UrlOpen jwks_url, JsonLoads ''jwks-body'', GetUnverifiedHeader ''k2'',
       JwtDecode ''k2'' [(''kty'', ''RSA''), (''kid'', ''k2''), (''use'', ''sig''),
                         (''n'', ''n-other''), (''e'', ''AQAB'')]],
      Inl (AuthError \<lparr>code = ''invalid_header'',
             description = ''Unable to parse authentication token.''\<rparr> 400))"
    by code_simp
  note t1 = gate_hides_every_failure
    [where headers = "with_header ''Basic abc''" and permission = "''post:drinks''"
       and env = sample_env and f = echo_payload]
  note t2 = gate_hides_every_failure
    [where headers = "with_header ''Bearer k2''" and permission = "''post:drinks''"
       and env = sample_env and f = echo_payload and token = "''k2''"]
  have r1: "requires_auth ''post:drinks'' sample_env echo_payload (with_header ''Basic abc'') =
     ([Print (AuthError \<lparr>code = ''invalid_header'',
            description = ''Authorization header must start with '' @ [CHR 0x22] @
              ''Bearer'' @ [CHR 0x22] @ ''.''\<rparr> 401)], Inl (HTTPException 401))"
    by (rule mp [OF conjunct1 [OF t1] h])
  have r2: "requires_auth ''post:drinks'' sample_env echo_payload (with_header ''Bearer k2'') =
     ([UrlOpen jwks_url, JsonLoads ''jwks-body'', GetUnverifiedHeader ''k2'',
       JwtDecode ''k2'' [(''kty'', ''RSA''), (''kid'', ''k2''), (''use'', ''sig''),
                         (''n'', ''n-other''), (''e'', ''AQAB'')]] @
       [Print (AuthError \<lparr>code = ''invalid_header'',
                description = ''Unable to parse authentication token.''\<rparr> 400)],
      Inl (HTTPException 401))"
    by (rule mp [OF conjunct2 [OF t2] conjI [OF tok ver]])
  from r1 r2 show ?thesis by simp
qed

text \<open>
  The claim as stated fails: a header with another scheme makes the extraction raise
  an \<open>AuthError\<close>, a token without a key id makes the verification raise one, and in
  both cases the AuthGate raises \<^verbatim>\<open>abort(401)\<close> instead.
\<close>

theorem gate_hides_auth_error_counterexample:
  "get_token_auth_header (with_header ''Basic abc'') =
     Inl (AuthError \<lparr>code = ''invalid_header'',
            description = ''Authorization header must start with '' @ [CHR 0x22] @
              ''Bearer'' @ [CHR 0x22] @ ''.''\<rparr> 401) \<and>
   snd (requires_auth ''post:drinks'' sample_env echo_payload (with_header ''Basic abc'')) =
     Inl (HTTPException 401) \<and>
   get_token_auth_header (with_header ''Bearer nokid'') = Inr ''nokid'' \<and>
   snd (verify_decode_jwt sample_env ''nokid'') =
     Inl (AuthError \<lparr>code = ''invalid_header'',
                     description = ''Authorization malformed.''\<rparr> 401) \<and>
   snd (requires_auth ''post:drinks'' sample_env echo_payload (with_header ''Bearer nokid'')) =
     Inl (HTTPException 401)"
  by code_simp

subsection \<open>C2: a request without the Authorization header\<close>

text \<open>
  C2, as amended. For every request without the Authorization header,
  \<open>get_token_auth_header\<close> raises the \<open>AuthError\<close> with the code
  \<open>authorization_header_missing\<close> and the status 401, and the AuthGate as a whole prints it
  and raises the generic \<^verbatim>\<open>abort(401)\<close>: the status is 401, the code does not leave the AuthGate.
\<close>

theorem missing_header_at_the_gate:
  "headers AUTHORIZATION = None \<Longrightarrow>
   get_token_auth_header headers =
     Inl (AuthError \<lparr>code = ''authorization_header_missing'',
                     description = ''Authorization header is expected.''\<rparr> 401) \<and>
   requires_auth permission env f headers =
     ([Print (AuthError \<lparr>code = ''authorization_header_missing'',
                         description = ''Authorization header is expected.''\<rparr> 401)],
      Inl (HTTPException 401))"
  using missing_header gate_extraction_fails by blast

theorem missing_header_at_the_gate_witness:
  "no_header AUTHORIZATION = None \<and>
   requires_auth ''get:drinks-detail'' sample_env echo_payload no_header =
     ([Print (AuthError \<lparr>code = ''authorization_header_missing'',
                         description = ''Authorization header is expected.''\<rparr> 401)],
      Inl (HTTPException 401))"
proof -
  have h: "no_header AUTHORIZATION = None" by (simp add: no_header_def)
  from missing_header_at_the_gate
    [where headers = no_header and permission = "''get:drinks-detail''" and env = sample_env
       and f = echo_payload] h
  show ?thesis by blast
qed

text \<open>The outcome of the AuthGate on such a request is not the \<open>AuthError\<close> with that code.\<close>

theorem missing_header_code_counterexample:
  "snd (requires_auth ''get:drinks-detail'' sample_env echo_payload no_header) =
     Inl (HTTPException 401) \<and>
   snd (requires_auth ''get:drinks-detail'' sample_env echo_payload no_header) \<noteq>
     Inl (AuthError \<lparr>code = ''authorization_header_missing'',
                     description = ''Authorization header is expected.''\<rparr> 401)"
  by code_simp

subsection \<open>C3: a key id that no key of the key set has\<close>

text \<open>
  C3, as amended. When the key set is fetched and parsed, every key of it has a key id,
  and none equals the key id the token declares, \<open>verify_decode_jwt\<close> raises the
  \<open>AuthError\<close> with the code \<open>invalid_header\<close>, the description
  \<open>Unable to find the appropriate key.\<close> and the status 400, without calling
  \<^verbatim>\<open>jwt.decode\<close>. The AuthGate catches it and raises the generic \<^verbatim>\<open>abort(401)\<close>: the request is
  rejected with the status 401, not 400.
\<close>

theorem unknown_key_id_rejected:
  assumes "urlopen env jwks_url = Inr body" and "json_loads env body = Inr jwks"
    and "map_of jwks ''keys'' = Some keys"
    and "get_unverified_header env token = Inr unverified_header"
    and "map_of unverified_header ''kid'' = Some kid"
    and "\<forall>k \<in> set keys. dict_has k ''kid'' \<and> \<not> key_matches kid k"
  shows "verify_decode_jwt env token =
           ([UrlOpen jwks_url, JsonLoads body, GetUnverifiedHeader token],
            Inl (AuthError \<lparr>code = ''invalid_header'',
                   description = ''Unable to find the appropriate key.''\<rparr> 400)) \<and>
         (get_token_auth_header headers = Inr token \<longrightarrow>
            snd (requires_auth permission env f headers) = Inl (HTTPException 401))"
proof -
  have sel: "select_rsa_key keys kid [] = Inr []"
    using assms(6) by (rule select_rsa_key_skips)
  have v: "verify_decode_jwt env token =
           ([UrlOpen jwks_url, JsonLoads body, GetUnverifiedHeader token],
            Inl (AuthError \<lparr>code = ''invalid_header'',
                   description = ''Unable to find the appropriate key.''\<rparr> 400))"
    using verify_after_header [OF assms(1) assms(2) assms(4) assms(5) assms(3) sel] by simp
  show ?thesis
    using v gate_verification_fails [of headers token env _ _ permission f] by simp
qed

theorem unknown_key_id_rejected_witness:
  "verify_decode_jwt sample_env ''k9'' =
     ([UrlOpen jwks_url, JsonLoads ''jwks-body'', GetUnverifiedHeader ''k9''],
      Inl (AuthError \<lparr>code = ''invalid_header'',
             description = ''Unable to find the appropriate key.''\<rparr> 400)) \<and>
   snd (requires_auth ''post:drinks'' sample_env echo_payload (with_header ''Bearer k9'')) =
     Inl (HTTPException 401)"
proof -
  have h1: "urlopen sample_env jwks_url = Inr ''jwks-body''" by (simp add: sample_env_def)
  have h2: "json_loads sample_env ''jwks-body'' = Inr [(''keys'', sample_keys)]"
    by (simp add: sample_env_def)
  have h3: "map_of [(''keys'', sample_keys)] ''keys'' = Some sample_keys" by simp
  have h4: "get_unverified_header sample_env ''k9'' = Inr [(''alg'', JStr ''RS256''), (''kid'', JStr ''k9'')]"
    by (simp add: sample_env_def sample_header_def)
  have h5: "map_of [(''alg'', JStr ''RS256''), (''kid'', JStr ''k9'')] ''kid'' = Some (JStr ''k9'')"
    by simp
  have h6: "\<forall>k \<in> set sample_keys. dict_has k ''kid'' \<and> \<not> key_matches (JStr ''k9'') k"
    by (simp add: sample_keys_def dict_has_def key_matches_def)
  have h7: "get_token_auth_header (with_header ''Bearer k9'') = Inr ''k9''" by code_simp
  from unknown_key_id_rejected
    [where headers = "with_header ''Bearer k9''" and permission = "''post:drinks''"
       and f = echo_payload, OF h1 h2 h3 h4 h5 h6] h7
  show ?thesis by blast
qed

text \<open>The outcome of the AuthGate on such a token is not the \<open>AuthError\<close> with the status 400.\<close>

theorem unknown_key_id_status_counterexample:
  "get_token_auth_header (with_header ''Bearer k9'') = Inr ''k9'' \<and>
   snd (verify_decode_jwt sample_env ''k9'') =
     Inl (AuthError \<lparr>code = ''invalid_header'',
            description = ''Unable to find the appropriate key.''\<rparr> 400) \<and>
   snd (requires_auth ''post:drinks'' sample_env echo_payload (with_header ''Bearer k9'')) =
     Inl (HTTPException 401) \<and>
   snd (requires_auth ''post:drinks'' sample_env echo_payload (with_header ''Bearer k9'')) \<noteq>
     Inl (AuthError \<lparr>code = ''invalid_header'',
            description = ''Unable to find the appropriate key.''\<rparr> 400)"
  by code_simp

subsection \<open>C4: check_permissions\<close>

text \<open>
  C4. The payload is a decoded claims payload: its \<open>permissions\<close> entry, when present, is
  an array. Then \<open>check_permissions\<close> raises the \<open>AuthError\<close> \<open>invalid_claims\<close> (400)
  exactly when the payload has no \<open>permissions\<close> entry, raises the \<open>AuthError\<close>
  \<open>unauthorized\<close> (403) exactly when the entry is present and the required permission is
  not a member of it, and returns \<^verbatim>\<open>True\<close> exactly when it is a member. The wrapper calls
  \<open>check_permissions\<close> after its \<^verbatim>\<open>try\<close> block, so either failure is the outcome of the
  AuthGate as it is, and the handler of \<open>api.py\<close> answers it with that code and status.
\<close>

theorem check_permissions_outcomes:
  assumes typed: "\<forall>v. map_of payload PERMISSIONS = Some v \<longrightarrow> (\<exists>xs. v = JList xs)"
  shows
    "((check_permissions permission payload =
        Inl (AuthError \<lparr>code = ''invalid_claims'',
               description = ''Permissions not included in JWT.''\<rparr> 400)) =
      (map_of payload PERMISSIONS = None)) \<and>
     ((check_permissions permission payload =
        Inl (AuthError \<lparr>code = ''unauthorized'',
               description = ''Permission not found.''\<rparr> 403)) =
      (\<exists>xs. map_of payload PERMISSIONS = Some (JList xs) \<and> JStr permission \<notin> set xs)) \<and>
     ((check_permissions permission payload = Inr True) =
      (\<exists>xs. map_of payload PERMISSIONS = Some (JList xs) \<and> JStr permission \<in> set xs)) \<and>
     (get_token_auth_header headers = Inr token \<and>
      verify_decode_jwt env token = (calls, Inr payload) \<and>
      check_permissions permission payload = Inl e \<longrightarrow>
        requires_auth permission env f headers = (calls, Inl e)) \<and>
     auth_error \<lparr>code = ''invalid_claims'',
                 description = ''Permissions not included in JWT.''\<rparr> 400 =
       ([(''success'', JBool False), (''error'', JNum 400), (''code'', JStr ''invalid_claims''),
         (''message'', JStr ''Permissions not included in JWT.'')], 400) \<and>
     auth_error \<lparr>code = ''unauthorized'', description = ''Permission not found.''\<rparr> 403 =
       ([(''success'', JBool False), (''error'', JNum 403), (''code'', JStr ''unauthorized''),
         (''message'', JStr ''Permission not found.'')], 403)"
proof -
  have a: "(check_permissions permission payload =
        Inl (AuthError \<lparr>code = ''invalid_claims'',
               description = ''Permissions not included in JWT.''\<rparr> 400)) =
      (map_of payload PERMISSIONS = None)"
    by (rule check_permissions_absent)
  have b: "(check_permissions permission payload =
        Inl (AuthError \<lparr>code = ''unauthorized'',
               description = ''Permission not found.''\<rparr> 403)) =
      (\<exists>xs. map_of payload PERMISSIONS = Some (JList xs) \<and> JStr permission \<notin> set xs)"
  proof (cases "map_of payload PERMISSIONS")
    case None
    then show ?thesis by (simp add: check_permissions_none)
  next
    case (Some v)
    with typed obtain xs where "v = JList xs" by blast
    with Some show ?thesis by (simp add: check_permissions_list)
  qed
  have c: "(check_permissions permission payload = Inr True) =
      (\<exists>xs. map_of payload PERMISSIONS = Some (JList xs) \<and> JStr permission \<in> set xs)"
  proof (cases "map_of payload PERMISSIONS")
    case None
    then show ?thesis by (simp add: check_permissions_none)
  next
    case (Some v)
    with typed obtain xs where "v = JList xs" by blast
    with Some show ?thesis by (simp add: check_permissions_list)
  qed
  have d: "get_token_auth_header headers = Inr token \<and>
      verify_decode_jwt env token = (calls, Inr payload) \<and>
      check_permissions permission payload = Inl e \<longrightarrow>
        requires_auth permission env f headers = (calls, Inl e)"
    by (simp add: gate_verified)
  have e1: "auth_error \<lparr>code = ''invalid_claims'',
                 description = ''Permissions not included in JWT.''\<rparr> 400 =
       ([(''success'', JBool False), (''error'', JNum 400), (''code'', JStr ''invalid_claims''),
         (''message'', JStr ''Permissions not included in JWT.'')], 400)"
    by (simp add: auth_error_def)
  have e2: "auth_error \<lparr>code = ''unauthorized'', description = ''Permission not found.''\<rparr> 403 =
       ([(''success'', JBool False), (''error'', JNum 403), (''code'', JStr ''unauthorized''),
         (''message'', JStr ''Permission not found.'')], 403)"
    by (simp add: auth_error_def)
  from a b c d e1 e2 show ?thesis by blast
qed

theorem check_permissions_outcomes_witness:
  "check_permissions ''post:drinks'' sample_payload =
     Inl (AuthError \<lparr>code = ''unauthorized'', description = ''Permission not found.''\<rparr> 403) \<and>
   requires_auth ''post:drinks'' sample_env echo_payload (with_header ''Bearer k1'') =
     ([UrlOpen jwks_url, JsonLoads ''jwks-body'', GetUnverifiedHeader ''k1'',
       JwtDecode ''k1'' [(''kty'', ''RSA''), (''kid'', ''k1''), (''use'', ''sig''),
                         (''n'', ''n-last''), (''e'', ''AQAB'')]],
      Inl (AuthError \<lparr>code = ''unauthorized'', description = ''Permission not found.''\<rparr> 403)) \<and>
   check_permissions ''get:drinks-detail'' sample_payload = Inr True \<and>
   check_permissions ''post:drinks'' [(''sub'', JStr ''someone'')] =
     Inl (AuthError \<lparr>code = ''invalid_claims'',
            description = ''Permissions not included in JWT.''\<rparr> 400)"
proof -
  have m: "map_of sample_payload PERMISSIONS = Some (JList [JStr ''get:drinks-detail''])"
    by (simp add: sample_payload_def PERMISSIONS_def)
  have typed: "\<forall>v. map_of sample_payload PERMISSIONS = Some v \<longrightarrow> (\<exists>xs. v = JList xs)"
    using m by simp
  have no: "\<exists>xs. map_of sample_payload PERMISSIONS = Some (JList xs) \<and> JStr ''post:drinks'' \<notin> set xs"
    using m by simp
  have yes: "\<exists>xs. map_of sample_payload PERMISSIONS = Some (JList xs) \<and> JStr ''get:drinks-detail'' \<in> set xs"
    using m by simp
  have tok: "get_token_auth_header (with_header ''Bearer k1'') = Inr ''k1''" by code_simp
  have ver: "verify_decode_jwt sample_env ''k1'' =
     ([UrlOpen jwks_url, JsonLoads ''jwks-body'', GetUnverifiedHeader ''k1'',
       JwtDecode ''k1'' [(''kty'', ''RSA''), (''kid'', ''k1''), (''use'', ''sig''),
                         (''n'', ''n-last''), (''e'', ''AQAB'')]],
      Inr sample_payload)"
    by code_simp
  have m2: "map_of [(''sub'', JStr ''someone'')] PERMISSIONS = None"
    by (simp add: PERMISSIONS_def)
  have typed2: "\<forall>v. map_of [(''sub'', JStr ''someone'')] PERMISSIONS = Some v \<longrightarrow> (\<exists>xs. v = JList xs)"
    using m2 by simp
  note t1 = check_permissions_outcomes
    [where payload = sample_payload and permission = "''post:drinks''" and env = sample_env
       and f = echo_payload and headers = "with_header ''Bearer k1''" and token = "''k1''",
     OF typed]
  note t2 = check_permissions_outcomes
    [where payload = sample_payload and permission = "''get:drinks-detail''", OF typed]
  note t3 = check_permissions_outcomes
    [where payload = "[(''sub'', JStr ''someone'')]" and permission = "''post:drinks''", OF typed2]
  have r1: "check_permissions ''post:drinks'' sample_payload =
     Inl (AuthError \<lparr>code = ''unauthorized'', description = ''Permission not found.''\<rparr> 403)"
    using t1 no by blast
  have r2: "requires_auth ''post:drinks'' sample_env echo_payload (with_header ''Bearer k1'') =
     ([UrlOpen jwks_url, JsonLoads ''jwks-body'', GetUnverifiedHeader ''k1'',
       JwtDecode ''k1'' [(''kty'', ''RSA''), (''kid'', ''k1''), (''use'', ''sig''),
                         (''n'', ''n-last''), (''e'', ''AQAB'')]],
      Inl (AuthError \<lparr>code = ''unauthorized'', description = ''Permission not found.''\<rparr> 403))"
    using t1 tok ver r1 by blast
  have r3: "check_permissions ''get:drinks-detail'' sample_payload = Inr True"
    using t2 yes by blast
  have r4: "check_permissions ''post:drinks'' [(''sub'', JStr ''someone'')] =
     Inl (AuthError \<lparr>code = ''invalid_claims'',
            description = ''Permissions not included in JWT.''\<rparr> 400)"
    using t3 m2 by blast
  from r1 r2 r3 r4 show ?thesis by blast
qed

subsection \<open>C5: the last matching key is the one used\<close>

text \<open>
  C5. The key set is scanned from its first key to its last, and every key has the five
  fields. When \<open>key\<close> matches the token's key id and no key after it does (keys before
  it may), the dictionary handed to \<^verbatim>\<open>jwt.decode\<close> holds the fields
  \<open>kty\<close>, \<open>kid\<close>, \<open>use\<close>, \<open>n\<close> and \<open>e\<close> of that key, and the outcome of
  \<open>verify_decode_jwt\<close> is the outcome of that call.
\<close>

theorem last_matching_key_is_used:
  assumes "urlopen env jwks_url = Inr body" and "json_loads env body = Inr jwks"
    and "map_of jwks ''keys'' = Some (pre @ key # post)"
    and "get_unverified_header env token = Inr unverified_header"
    and "map_of unverified_header ''kid'' = Some kid"
    and "\<forall>k \<in> set (pre @ key # post). list_all (dict_has k) rsa_fields"
    and "key_matches kid key"
    and "\<forall>k \<in> set post. \<not> key_matches kid k"
  shows "\<exists>r. copy_fields key rsa_fields = Inr r \<and>
           map fst r = rsa_fields \<and> (\<forall>f \<in> set rsa_fields. map_of r f = map_of key f) \<and>
           select_rsa_key (pre @ key # post) kid [] = Inr r \<and>
           verify_decode_jwt env token =
             ([UrlOpen jwks_url, JsonLoads body, GetUnverifiedHeader token, JwtDecode token r],
              case jwt_decode env token r ALGORITHMS API_AUDIENCE issuer of
                Inr payload \<Rightarrow> Inr payload
              | Inl e \<Rightarrow> Inl (decode_handler e))"
proof -
  from assms(6) have "list_all (dict_has key) rsa_fields" by simp
  from copy_fields_complete [OF this] obtain r where r: "copy_fields key rsa_fields = Inr r"
    "map fst r = rsa_fields" "\<forall>f \<in> set rsa_fields. map_of r f = map_of key f" by blast
  have sel: "select_rsa_key (pre @ key # post) kid [] = Inr r"
    using assms(6) assms(7) assms(8) r(1) by (rule select_rsa_key_last_match)
  have ne: "r \<noteq> []" using r(1) by (rule copy_fields_nonempty)
  have "verify_decode_jwt env token =
             ([UrlOpen jwks_url, JsonLoads body, GetUnverifiedHeader token, JwtDecode token r],
              case jwt_decode env token r ALGORITHMS API_AUDIENCE issuer of
                Inr payload \<Rightarrow> Inr payload
              | Inl e \<Rightarrow> Inl (decode_handler e))"
    using verify_after_header [OF assms(1) assms(2) assms(4) assms(5) assms(3) sel] ne by simp
  with r sel show ?thesis by blast
qed

theorem last_matching_key_is_used_witness:
  "select_rsa_key sample_keys (JStr ''k1'') [] =
     Inr [(''kty'', ''RSA''), (''kid'', ''k1''), (''use'', ''sig''), (''n'', ''n-last''), (''e'', ''AQAB'')] \<and>
   verify_decode_jwt sample_env ''k1'' =
     ([UrlOpen jwks_url, JsonLoads ''jwks-body'', GetUnverifiedHeader ''k1'',
       JwtDecode ''k1'' [(''kty'', ''RSA''), (''kid'', ''k1''), (''use'', ''sig''),
                         (''n'', ''n-last''), (''e'', ''AQAB'')]],
      Inr sample_payload)"
proof -
  define k1 :: jwk where
    "k1 = [(''kty'', ''RSA''), (''kid'', ''k1''), (''use'', ''sig''), (''n'', ''n-first''), (''e'', ''AQAB'')]"
  define k2 :: jwk where
    "k2 = [(''kty'', ''RSA''), (''kid'', ''k2''), (''use'', ''sig''), (''n'', ''n-other''), (''e'', ''AQAB'')]"
  define k3 :: jwk where
    "k3 = [(''kty'', ''RSA''), (''kid'', ''k1''), (''use'', ''sig''), (''n'', ''n-last''), (''e'', ''AQAB'')]"
  have keys: "sample_keys = [k1, k2] @ k3 # []"
    by (simp add: sample_keys_def k1_def k2_def k3_def)
  have h1: "urlopen sample_env jwks_url = Inr ''jwks-body''" by (simp add: sample_env_def)
  have h2: "json_loads sample_env ''jwks-body'' = Inr [(''keys'', sample_keys)]"
    by (simp add: sample_env_def)
  have h3: "map_of [(''keys'', sample_keys)] ''keys'' = Some ([k1, k2] @ k3 # [])"
    using keys by simp
  have h4: "get_unverified_header sample_env ''k1'' = Inr [(''alg'', JStr ''RS256''), (''kid'', JStr ''k1'')]"
    by (simp add: sample_env_def sample_header_def)
  have h5: "map_of [(''alg'', JStr ''RS256''), (''kid'', JStr ''k1'')] ''kid'' = Some (JStr ''k1'')"
    by simp
  have h6: "\<forall>k \<in> set ([k1, k2] @ k3 # []). list_all (dict_has k) rsa_fields"
    by (simp add: k1_def k2_def k3_def rsa_fields_def dict_has_def)
  have h7: "key_matches (JStr ''k1'') k3" by (simp add: key_matches_def k3_def)
  have h8: "\<forall>k \<in> set []. \<not> key_matches (JStr ''k1'') k" by simp
  have c: "copy_fields k3 rsa_fields = Inr k3"
    by (simp add: k3_def rsa_fields_def dict_get_def)
  have d: "jwt_decode sample_env ''k1'' k3 ALGORITHMS API_AUDIENCE issuer = Inr sample_payload"
    by (simp add: sample_env_def sample_decode_def k3_def)
  from last_matching_key_is_used [OF h1 h2 h3 h4 h5 h6 h7 h8]
  obtain r where r: "copy_fields k3 rsa_fields = Inr r"
    "select_rsa_key ([k1, k2] @ k3 # []) (JStr ''k1'') [] = Inr r"
    "verify_decode_jwt sample_env ''k1'' =
       ([UrlOpen jwks_url, JsonLoads ''jwks-body'', GetUnverifiedHeader ''k1'', JwtDecode ''k1'' r],
        case jwt_decode sample_env ''k1'' r ALGORITHMS API_AUDIENCE issuer of
          Inr payload \<Rightarrow> Inr payload
        | Inl e \<Rightarrow> Inl (decode_handler e))"
    by blast
  from r(1) c have eq: "r = k3" by simp
  have s: "select_rsa_key sample_keys (JStr ''k1'') [] = Inr r"
    using r(2) unfolding keys .
  from s r(3) eq d show ?thesis by (simp add: k3_def)
qed

subsection \<open>C6: the shapes of a present header\<close>

text \<open>
  C6, as amended. For every present header value, split on white space: when the first
  part lowercased is not \<open>bearer\<close>, the failure is \<open>invalid_header\<close> (401) with the
  description \<open>Authorization header must start with "Bearer".\<close>, however many parts
  there are; when the only part lowercases to \<open>bearer\<close>, it is \<open>invalid_header\<close> (401)
  with \<open>Token not found.\<close>; when there are more than two parts and the first lowercases
  to \<open>bearer\<close>, it is \<open>invalid_header\<close> (401) with
  \<open>Authorization header must be bearer token.\<close>; and a header of exactly two parts
  whose first lowercases to \<open>bearer\<close> returns the second part as it is.
\<close>

theorem get_token_auth_header_shapes:
  assumes "headers AUTHORIZATION = Some auth"
  shows
    "(str_split auth = p # ps \<and> str_lower p \<noteq> BEARER \<longrightarrow>
        get_token_auth_header headers =
          Inl (AuthError \<lparr>code = ''invalid_header'',
                 description = ''Authorization header must start with '' @ [CHR 0x22] @
                   ''Bearer'' @ [CHR 0x22] @ ''.''\<rparr> 401)) \<and>
     (str_split auth = [p] \<and> str_lower p = BEARER \<longrightarrow>
        get_token_auth_header headers =
          Inl (AuthError \<lparr>code = ''invalid_header'', description = ''Token not found.''\<rparr> 401)) \<and>
     (str_split auth = p # t # u # us \<and> str_lower p = BEARER \<longrightarrow>
        get_token_auth_header headers =
          Inl (AuthError \<lparr>code = ''invalid_header'',
                 description = ''Authorization header must be bearer token.''\<rparr> 401)) \<and>
     (str_split auth = [p, t] \<and> str_lower p = BEARER \<longrightarrow>
        get_token_auth_header headers = Inr t)"
proof -
  have ne: "str_split auth \<noteq> [] \<Longrightarrow> auth \<noteq> []"
    by (auto simp: str_split_def)
  show ?thesis
    using assms ne by (auto simp: get_token_auth_header_def Let_def)
qed

theorem get_token_auth_header_shapes_witness:
  "get_token_auth_header (with_header ''Token abc'') =
     Inl (AuthError \<lparr>code = ''invalid_header'',
            description = ''Authorization header must start with '' @ [CHR 0x22] @
              ''Bearer'' @ [CHR 0x22] @ ''.''\<rparr> 401) \<and>
   get_token_auth_header (with_header ''bearer'') =
     Inl (AuthError \<lparr>code = ''invalid_header'', description = ''Token not found.''\<rparr> 401) \<and>
   get_token_auth_header (with_header ''Bearer a b'') =
     Inl (AuthError \<lparr>code = ''invalid_header'',
            description = ''Authorization header must be bearer token.''\<rparr> 401) \<and>
   get_token_auth_header (with_header ''BEARER abc.def'') = Inr ''abc.def''"
proof -
  have h: "\<And>v. with_header v AUTHORIZATION = Some v" by (simp add: with_header_def)
  have s1: "str_split ''Token abc'' = [''Token'', ''abc''] \<and> str_lower ''Token'' \<noteq> BEARER"
    by code_simp
  have s2: "str_split ''bearer'' = [''bearer''] \<and> str_lower ''bearer'' = BEARER"
    by code_simp
  have s3: "str_split ''Bearer a b'' = ''Bearer'' # ''a'' # ''b'' # [] \<and> str_lower ''Bearer'' = BEARER"
    by code_simp
  have s4: "str_split ''BEARER abc.def'' = [''BEARER'', ''abc.def''] \<and> str_lower ''BEARER'' = BEARER"
    by code_simp
  note t1 = get_token_auth_header_shapes
    [where headers = "with_header ''Token abc''" and auth = "''Token abc''" and p = "''Token''"
       and ps = "[''abc'']", OF h]
  note t2 = get_token_auth_header_shapes
    [where headers = "with_header ''bearer''" and auth = "''bearer''" and p = "''bearer''", OF h]
  note t3 = get_token_auth_header_shapes
    [where headers = "with_header ''Bearer a b''" and auth = "''Bearer a b''" and p = "''Bearer''"
       and t = "''a''" and u = "''b''" and us = "[]", OF h]
  note t4 = get_token_auth_header_shapes
    [where headers = "with_header ''BEARER abc.def''" and auth = "''BEARER abc.def''"
       and p = "''BEARER''" and t = "''abc.def''", OF h]
  have r1: "get_token_auth_header (with_header ''Token abc'') =
     Inl (AuthError \<lparr>code = ''invalid_header'',
            description = ''Authorization header must start with '' @ [CHR 0x22] @
              ''Bearer'' @ [CHR 0x22] @ ''.''\<rparr> 401)"
    using t1 s1 by simp
  have r2: "get_token_auth_header (with_header ''bearer'') =
     Inl (AuthError \<lparr>code = ''invalid_header'', description = ''Token not found.''\<rparr> 401)"
    using t2 s2 by simp
  have r3: "get_token_auth_header (with_header ''Bearer a b'') =
     Inl (AuthError \<lparr>code = ''invalid_header'',
            description = ''Authorization header must be bearer token.''\<rparr> 401)"
    using t3 s3 by simp
  have r4: "get_token_auth_header (with_header ''BEARER abc.def'') = Inr ''abc.def''"
    using t4 s4 by simp
  from r1 r2 r3 r4 show ?thesis by simp
qed

text \<open>
  The claim as stated fails on a header of one part that is not the scheme: the
  description is not \<open>Token not found.\<close>, since the scheme is tested first.
\<close>

theorem single_part_other_scheme_counterexample:
  "str_split ''Basic'' = [''Basic''] \<and>
   get_token_auth_header (with_header ''Basic'') =
     Inl (AuthError \<lparr>code = ''invalid_header'',
            description = ''Authorization header must start with '' @ [CHR 0x22] @
              ''Bearer'' @ [CHR 0x22] @ ''.''\<rparr> 401) \<and>
   get_token_auth_header (with_header ''Basic'') \<noteq>
     Inl (AuthError \<lparr>code = ''invalid_header'', description = ''Token not found.''\<rparr> 401)"
  by code_simp

subsection \<open>C7: the other failures of the decoding\<close>

text \<open>
  C7, as amended. When the key set is fetched, the header of the token is read and
  declares a key id, and a key is selected, every failure of \<^verbatim>\<open>jwt.decode\<close> other than
  \<open>ExpiredSignatureError\<close> and \<open>JWTClaimsError\<close> (a bad signature, for one) makes
  \<open>verify_decode_jwt\<close> raise the \<open>AuthError\<close> with the code \<open>invalid_header\<close>, the
  description \<open>Unable to parse authentication token.\<close> and the status 400.
\<close>

theorem other_decode_failures:
  assumes "urlopen env jwks_url = Inr body" and "json_loads env body = Inr jwks"
    and "map_of jwks ''keys'' = Some keys"
    and "get_unverified_header env token = Inr unverified_header"
    and "map_of unverified_header ''kid'' = Some kid"
    and "select_rsa_key keys kid [] = Inr rsa_key" and "rsa_key \<noteq> []"
    and "jwt_decode env token rsa_key ALGORITHMS API_AUDIENCE issuer = Inl e"
    and "e \<noteq> ExpiredSignatureError" and "e \<noteq> JWTClaimsError"
  shows "snd (verify_decode_jwt env token) =
           Inl (AuthError \<lparr>code = ''invalid_header'',
                  description = ''Unable to parse authentication token.''\<rparr> 400)"
proof -
  have "decode_handler e =
          AuthError \<lparr>code = ''invalid_header'',
            description = ''Unable to parse authentication token.''\<rparr> 400"
    using assms(9) assms(10) by (cases e) simp_all
  then show ?thesis
    using verify_after_header [OF assms(1) assms(2) assms(4) assms(5) assms(3) assms(6)]
      assms(7) assms(8)
    by simp
qed

theorem other_decode_failures_witness:
  "snd (verify_decode_jwt sample_env ''k2'') =
     Inl (AuthError \<lparr>code = ''invalid_header'',
            description = ''Unable to parse authentication token.''\<rparr> 400)"
proof -
  have h1: "urlopen sample_env jwks_url = Inr ''jwks-body''" by (simp add: sample_env_def)
  have h2: "json_loads sample_env ''jwks-body'' = Inr [(''keys'', sample_keys)]"
    by (simp add: sample_env_def)
  have h3: "map_of [(''keys'', sample_keys)] ''keys'' = Some sample_keys" by simp
  have h4: "get_unverified_header sample_env ''k2'' = Inr [(''alg'', JStr ''RS256''), (''kid'', JStr ''k2'')]"
    by (simp add: sample_env_def sample_header_def)
  have h5: "map_of [(''alg'', JStr ''RS256''), (''kid'', JStr ''k2'')] ''kid'' = Some (JStr ''k2'')"
    by simp
  have h6: "select_rsa_key sample_keys (JStr ''k2'') [] =
      Inr [(''kty'', ''RSA''), (''kid'', ''k2''), (''use'', ''sig''), (''n'', ''n-other''), (''e'', ''AQAB'')]"
    by code_simp
  have h7: "[(''kty'', ''RSA''), (''kid'', ''k2''), (''use'', ''sig''), (''n'', ''n-other''), (''e'', ''AQAB'')] \<noteq> []"
    by simp
  have h8: "jwt_decode sample_env ''k2''
      [(''kty'', ''RSA''), (''kid'', ''k2''), (''use'', ''sig''), (''n'', ''n-other''), (''e'', ''AQAB'')]
      ALGORITHMS API_AUDIENCE issuer = Inl JWTError"
    by (simp add: sample_env_def sample_decode_def)
  have h9: "JWTError \<noteq> ExpiredSignatureError" by simp
  have h10: "JWTError \<noteq> JWTClaimsError" by simp
  from other_decode_failures [OF h1 h2 h3 h4 h5 h6 h7 h8 h9 h10] show ?thesis .
qed

text \<open>
  The claim as stated fails on a malformed token: \<^verbatim>\<open>jwt.get_unverified_header\<close> is called
  before the \<^verbatim>\<open>try\<close> block, so its exception leaves \<open>verify_decode_jwt\<close> as it is.
\<close>

theorem malformed_token_counterexample:
  "verify_decode_jwt sample_env ''garbage'' =
     ([UrlOpen jwks_url, JsonLoads ''jwks-body'', GetUnverifiedHeader ''garbage''], Inl JWTError) \<and>
   snd (verify_decode_jwt sample_env ''garbage'') \<noteq>
     Inl (AuthError \<lparr>code = ''invalid_header'',
            description = ''Unable to parse authentication token.''\<rparr> 400)"
  by code_simp

subsection \<open>C8: the payload handed to the protected operation\<close>

text \<open>
  C8. On a run in which the extraction, the verification and the permission check
  succeed, the wrapper calls the protected operation on the payload that
  \<open>verify_decode_jwt\<close> returned, which is the value \<^verbatim>\<open>jwt.decode\<close> returned for this token:
  nothing in between changes it, its \<open>permissions\<close> entry included.
\<close>

theorem payload_reaches_operation_unmodified:
  assumes "get_token_auth_header headers = Inr token"
    and "verify_decode_jwt env token = (calls, Inr payload)"
    and "check_permissions permission payload = Inr granted"
  shows "requires_auth permission env f headers = (calls, f payload) \<and>
         (\<exists>rsa_key. jwt_decode env token rsa_key ALGORITHMS API_AUDIENCE issuer = Inr payload \<and>
            JwtDecode token rsa_key \<in> set calls)"
  using gate_verified [OF assms(1) assms(2), of permission f] assms(3)
    verify_ok_is_decoded [OF assms(2)]
  by simp

theorem payload_reaches_operation_unmodified_witness:
  "requires_auth ''get:drinks-detail'' sample_env echo_payload (with_header ''Bearer k1'') =
     ([UrlOpen jwks_url, JsonLoads ''jwks-body'', GetUnverifiedHeader ''k1'',
       JwtDecode ''k1'' [(''kty'', ''RSA''), (''kid'', ''k1''), (''use'', ''sig''),
                         (''n'', ''n-last''), (''e'', ''AQAB'')]],
      Inr sample_payload) \<and>
   map_of sample_payload PERMISSIONS = Some (JList [JStr ''get:drinks-detail''])"
proof -
  have tok: "get_token_auth_header (with_header ''Bearer k1'') = Inr ''k1''" by code_simp
  have ver: "verify_decode_jwt sample_env ''k1'' =
     ([UrlOpen jwks_url, JsonLoads ''jwks-body'', GetUnverifiedHeader ''k1'',
       JwtDecode ''k1'' [(''kty'', ''RSA''), (''kid'', ''k1''), (''use'', ''sig''),
                         (''n'', ''n-last''), (''e'', ''AQAB'')]],
      Inr sample_payload)"
    by code_simp
  have chk: "check_permissions ''get:drinks-detail'' sample_payload = Inr True" by code_simp
  have m: "map_of sample_payload PERMISSIONS = Some (JList [JStr ''get:drinks-detail''])"
    by (simp add: sample_payload_def PERMISSIONS_def)
  from payload_reaches_operation_unmodified
    [where headers = "with_header ''Bearer k1''" and f = echo_payload, OF tok ver chk] m
  show ?thesis by (simp add: echo_payload_def)
qed

subsection \<open>C9: a header of white space only\<close>

text \<open>
  C9. For every Authorization header value that is not empty and holds white space only,
  the split has no part, and \<open>get_token_auth_header\<close> raises \<^verbatim>\<open>IndexError\<close> at \<^verbatim>\<open>parts[0]\<close>,
  which is not an \<open>AuthError\<close>.
\<close>

theorem blank_header_index_error:
  "headers AUTHORIZATION = Some auth \<Longrightarrow> auth \<noteq> [] \<Longrightarrow> \<forall>c \<in> set auth. isspace c \<Longrightarrow>
   str_split auth = [] \<and> get_token_auth_header headers = Inl IndexError"
  by (simp add: get_token_auth_header_def str_split_def split_from_spaces)

theorem blank_header_index_error_witness:
  "str_split [CHR '' '', CHR 0x09, CHR 0xA0] = [] \<and>
   get_token_auth_header (with_header [CHR '' '', CHR 0x09, CHR 0xA0]) = Inl IndexError"
proof -
  have h1: "with_header [CHR '' '', CHR 0x09, CHR 0xA0] AUTHORIZATION = Some [CHR '' '', CHR 0x09, CHR 0xA0]"
    by (simp add: with_header_def)
  have h2: "[CHR '' '', CHR 0x09, CHR 0xA0] \<noteq> []" by simp
  have h3: "\<forall>c \<in> set [CHR '' '', CHR 0x09, CHR 0xA0]. isspace c" by (simp add: isspace_def)
  from blank_header_index_error
    [where headers = "with_header [CHR '' '', CHR 0x09, CHR 0xA0]"
       and auth = "[CHR '' '', CHR 0x09, CHR 0xA0]"] h1 h2 h3
  show ?thesis by blast
qed

subsection \<open>C10: the key set is fetched before the token is looked at\<close>

text \<open>
  C10. Every call of \<open>verify_decode_jwt\<close> starts with the fetch of the key set; the
  parse of the body is the second call and the reading of the token's header the third,
  so the token is not looked at before. A failure of the fetch or of the parse is the
  outcome of \<open>verify_decode_jwt\<close> as it was raised, with nothing called after it. A
  token without a key id is rejected only after the fetch and the parse.
\<close>

theorem key_set_is_fetched_first:
  "(fst (verify_decode_jwt env token) = [UrlOpen jwks_url] \<or>
    (\<exists>body. fst (verify_decode_jwt env token) = [UrlOpen jwks_url, JsonLoads body]) \<or>
    (\<exists>body rest. fst (verify_decode_jwt env token) =
       UrlOpen jwks_url # JsonLoads body # GetUnverifiedHeader token # rest)) \<and>
   (urlopen env jwks_url = Inl e \<longrightarrow> verify_decode_jwt env token = ([UrlOpen jwks_url], Inl e)) \<and>
   (urlopen env jwks_url = Inr body \<and> json_loads env body = Inl e \<longrightarrow>
      verify_decode_jwt env token = ([UrlOpen jwks_url, JsonLoads body], Inl e)) \<and>
   (urlopen env jwks_url = Inr body \<and> json_loads env body = Inr jwks \<and>
    get_unverified_header env token = Inr unverified_header \<and>
    map_of unverified_header ''kid'' = None \<longrightarrow>
      verify_decode_jwt env token =
        ([UrlOpen jwks_url, JsonLoads body, GetUnverifiedHeader token],
         Inl (AuthError \<lparr>code = ''invalid_header'',
                description = ''Authorization malformed.''\<rparr> 401)))"
proof -
  have a: "urlopen env jwks_url = Inl e \<longrightarrow> verify_decode_jwt env token = ([UrlOpen jwks_url], Inl e)"
    by (simp add: verify_decode_jwt_def)
  have b: "urlopen env jwks_url = Inr body \<and> json_loads env body = Inl e \<longrightarrow>
      verify_decode_jwt env token = ([UrlOpen jwks_url, JsonLoads body], Inl e)"
    by (simp add: verify_decode_jwt_def)
  have c: "urlopen env jwks_url = Inr body \<and> json_loads env body = Inr jwks \<and>
    get_unverified_header env token = Inr unverified_header \<and>
    map_of unverified_header ''kid'' = None \<longrightarrow>
      verify_decode_jwt env token =
        ([UrlOpen jwks_url, JsonLoads body, GetUnverifiedHeader token],
         Inl (AuthError \<lparr>code = ''invalid_header'',
                description = ''Authorization malformed.''\<rparr> 401))"
    by (simp add: verify_decode_jwt_def dict_has_def)
  show ?thesis
    by (rule conjI [OF verify_trace_shape conjI [OF a conjI [OF b c]]])
qed

theorem key_set_is_fetched_first_witness:
  "verify_decode_jwt offline_env ''nokid'' = ([UrlOpen jwks_url], Inl (OtherError ''URLError'')) \<and>
   verify_decode_jwt badjson_env ''nokid'' =
     ([UrlOpen jwks_url, JsonLoads ''jwks-body''], Inl (OtherError ''JSONDecodeError'')) \<and>
   verify_decode_jwt sample_env ''nokid'' =
     ([UrlOpen jwks_url, JsonLoads ''jwks-body'', GetUnverifiedHeader ''nokid''],
      Inl (AuthError \<lparr>code = ''invalid_header'',
             description = ''Authorization malformed.''\<rparr> 401))"
proof -
  have a: "urlopen offline_env jwks_url = Inl (OtherError ''URLError'')"
    by (simp add: offline_env_def sample_env_def)
  have b: "urlopen badjson_env jwks_url = Inr ''jwks-body'' \<and>
           json_loads badjson_env ''jwks-body'' = Inl (OtherError ''JSONDecodeError'')"
    by (simp add: badjson_env_def sample_env_def)
  have c: "urlopen sample_env jwks_url = Inr ''jwks-body'' \<and>
           json_loads sample_env ''jwks-body'' = Inr [(''keys'', sample_keys)] \<and>
           get_unverified_header sample_env ''nokid'' = Inr [(''alg'', JStr ''RS256'')] \<and>
           map_of [(''alg'', JStr ''RS256'')] ''kid'' = None"
    by (simp add: sample_env_def sample_header_def)
  note t1 = key_set_is_fetched_first
    [where env = offline_env and token = "''nokid''" and e = "OtherError ''URLError''"]
  note t2 = key_set_is_fetched_first
    [where env = badjson_env and token = "''nokid''" and e = "OtherError ''JSONDecodeError''"
       and body = "''jwks-body''"]
  note t3 = key_set_is_fetched_first
    [where env = sample_env and token = "''nokid''" and body = "''jwks-body''"
       and jwks = "[(''keys'', sample_keys)]" and unverified_header = "[(''alg'', JStr ''RS256'')]"]
  have r1: "verify_decode_jwt offline_env ''nokid'' = ([UrlOpen jwks_url], Inl (OtherError ''URLError''))"
    by (rule mp [OF conjunct1 [OF conjunct2 [OF t1]] a])
  have r2: "verify_decode_jwt badjson_env ''nokid'' =
     ([UrlOpen jwks_url, JsonLoads ''jwks-body''], Inl (OtherError ''JSONDecodeError''))"
    by (rule mp [OF conjunct1 [OF conjunct2 [OF conjunct2 [OF t2]]] b])
  have r3: "verify_decode_jwt sample_env ''nokid'' =
     ([UrlOpen jwks_url, JsonLoads ''jwks-body'', GetUnverifiedHeader ''nokid''],
      Inl (AuthError \<lparr>code = ''invalid_header'',
             description = ''Authorization malformed.''\<rparr> 401))"
    by (rule mp [OF conjunct2 [OF conjunct2 [OF conjunct2 [OF t3]]] c])
  show ?thesis by (rule conjI [OF r1 conjI [OF r2 r3]])
qed

end
